theory Spec2Isabelle
  imports Complex_Main
begin

section \<open>EnOcean switch platform (custom_components/enocean_cs/switch.py)\<close>

text \<open>
  A shallow embedding of \<^verbatim>\<open>switch.py\<close>. The module is glue between two
  libraries that are not part of the repository: the \<^verbatim>\<open>enocean\<close> telegram
  library (\<^verbatim>\<open>combine_hex\<close>, \<^verbatim>\<open>RadioPacket.create\<close>,
  \<^verbatim>\<open>packet.parse_eep\<close>) and the host's entity registry. The functions of
  \<^verbatim>\<open>switch.py\<close> are translated line by line; what they call outside the
  file is either a parameter (the EEP parser, the constant
  \<^verbatim>\<open>SWITCH_ALL_CHANNELS\<close>) or a definition marked as modelled from the
  specification.
\<close>

subsection \<open>Errors\<close>

text \<open>The exceptions that can leave the functions of the module.\<close>

datatype error =
    IndexError
  | KeyError string
  | ValueError
  | ParseError

text \<open>Sequencing of fallible steps: the first exception ends the computation.\<close>

definition bind_result :: "error + 'a \<Rightarrow> ('a \<Rightarrow> error + 'b) \<Rightarrow> error + 'b" where
  "bind_result r f = (case r of Inl e \<Rightarrow> Inl e | Inr v \<Rightarrow> f v)"

subsection \<open>Unique ids\<close>

text \<open>
  Python's \<^verbatim>\<open>str\<close> on an integer, as the f-strings of
  \<^verbatim>\<open>generate_unique_id\<close> apply it: decimal digits, most significant
  first, with a leading minus sign for a negative number.
\<close>

definition digit_char :: "nat \<Rightarrow> char" where
  "digit_char d = ''0123456789'' ! d"

fun str_nat :: "nat \<Rightarrow> string" where
  "str_nat n = (if n < 10 then [digit_char n] else str_nat (n div 10) @ [digit_char (n mod 10)])"

declare str_nat.simps [simp del]

definition str_int :: "int \<Rightarrow> string" where
  "str_int i = (if i < 0 then CHR ''-'' # str_nat (nat (- i)) else str_nat (nat i))"

text \<open>
  Modelled from the spec: \<^verbatim>\<open>combine_hex\<close> of the \<^verbatim>\<open>enocean\<close>
  library, which is not among the sources. The specification describes it as the
  big-endian fold in which each byte contributes
  \<^verbatim>\<open>byte << (8 * position_from_end)\<close>, summed. The loop runs over
  \<^verbatim>\<open>enumerate(reversed(data))\<close>.
\<close>

definition combine_hex :: "int list \<Rightarrow> int" where
  "combine_hex data_bytes =
     sum_list (map (\<lambda>(i, v). push_bit (i * 8) v) (enumerate 0 (rev data_bytes)))"

text \<open>\<^verbatim>\<open>return f"{combine_hex(dev_id)}-{channel}"\<close>\<close>

definition generate_unique_id :: "int list \<Rightarrow> int \<Rightarrow> string" where
  "generate_unique_id dev channel_no =
     str_int (combine_hex dev) @ ''-'' @ str_int channel_no"

subsection \<open>Telegrams\<close>

text \<open>
  The members of the library's \<^verbatim>\<open>RORG\<close> enumeration that name a telegram
  class; \<^verbatim>\<open>switch.py\<close> uses \<^verbatim>\<open>RORG.VLD\<close>.
\<close>

datatype RORG = RPS | BS1 | BS4 | VLD

text \<open>
  An outbound telegram. Modelled from the spec: \<^verbatim>\<open>RadioPacket.create\<close> of
  the \<^verbatim>\<open>enocean\<close> library (not among the sources) builds a telegram from
  named numeric fields given a profile selector. The byte layout belongs to the
  library, so a telegram is represented by what it was built from: the profile
  selector, the two addresses, the command and the keyword fields.
\<close>

record radio_packet =
  rorg :: RORG
  rorg_func :: nat
  rorg_type :: nat
  sender :: "int list"
  destination :: "int list"
  command :: nat
  kwargs :: "string \<rightharpoonup> int"

definition RadioPacket_create ::
  "RORG \<Rightarrow> nat \<Rightarrow> nat \<Rightarrow> int list \<Rightarrow> int list \<Rightarrow> nat \<Rightarrow> (string \<rightharpoonup> int) \<Rightarrow> radio_packet" where
  "RadioPacket_create r f t s d c kw =
     \<lparr>rorg = r, rorg_func = f, rorg_type = t, sender = s, destination = d,
      command = c, kwargs = kw\<rparr>"

text \<open>
  An inbound telegram as \<^verbatim>\<open>value_changed\<close> reads it: the data bytes and the
  dictionary \<^verbatim>\<open>packet.parsed\<close>, of which only
  \<^verbatim>\<open>packet.parsed[key]["raw_value"]\<close> is read. A raw value is the unsigned
  integer made of the bits of its field.
\<close>

record packet =
  data :: "nat list"
  parsed :: "string \<rightharpoonup> nat"

text \<open>
  \<^verbatim>\<open>packet.parse_eep(func, type)\<close> belongs to the library: it fills
  \<^verbatim>\<open>packet.parsed\<close> or raises. It is a parameter of the model.
\<close>

type_synonym eep_parser = "packet \<Rightarrow> nat \<Rightarrow> nat \<Rightarrow> error + packet"

text \<open>\<^verbatim>\<open>packet.parsed[key]["raw_value"]\<close>, a \<^verbatim>\<open>KeyError\<close> when the key is missing.\<close>

definition raw_value :: "packet \<Rightarrow> string \<Rightarrow> error + nat" where
  "raw_value p key = (case parsed p key of None \<Rightarrow> Inl (KeyError key) | Some v \<Rightarrow> Inr v)"

subsection \<open>The switch entity\<close>

text \<open>
  The attributes of an \<^verbatim>\<open>EnOceanSwitch\<close>, and the two effects it has on its
  surroundings: \<^verbatim>\<open>sent_packets\<close> lists the telegrams handed to
  \<^verbatim>\<open>send_packet\<close>, oldest first, and \<^verbatim>\<open>scheduled_updates\<close>
  counts the calls of \<^verbatim>\<open>schedule_update_ha_state\<close>.
\<close>

record EnOceanSwitch =
  dev_id :: "int list"
  channel :: int
  sender_id :: "int list"
  attr_unique_id :: string
  attr_name :: string
  attr_is_on :: bool
  sent_packets :: "radio_packet list"
  scheduled_updates :: nat

text \<open>
  \<^verbatim>\<open>__init__\<close>; the class attribute \<^verbatim>\<open>_attr_is_on = False\<close> is
  the initial state, and the base class stores \<^verbatim>\<open>dev_id\<close>. The attribute
  \<^verbatim>\<open>_light\<close>, set to \<^verbatim>\<open>None\<close> and never read, is left out.
\<close>

definition init_switch :: "int list \<Rightarrow> string \<Rightarrow> int \<Rightarrow> int list \<Rightarrow> EnOceanSwitch" where
  "init_switch dev dev_name channel_no sender_address =
     \<lparr>dev_id = dev, channel = channel_no, sender_id = sender_address,
      attr_unique_id = generate_unique_id dev channel_no, attr_name = dev_name,
      attr_is_on = False, sent_packets = [], scheduled_updates = 0\<rparr>"

text \<open>
  Modelled from the spec: \<^verbatim>\<open>send_packet\<close> of the base class
  \<^verbatim>\<open>EnOceanEntity\<close> (entity.py, not among the sources) is the transport sink,
  which accepts an encoded telegram; delivery is not observed.
\<close>

definition send_packet :: "EnOceanSwitch \<Rightarrow> radio_packet \<Rightarrow> EnOceanSwitch" where
  "send_packet self pkt = self\<lparr>sent_packets := sent_packets self @ [pkt]\<rparr>"

text \<open>The host's \<^verbatim>\<open>schedule_update_ha_state\<close>: one more state refresh is scheduled.\<close>

definition schedule_update_ha_state :: "EnOceanSwitch \<Rightarrow> EnOceanSwitch" where
  "schedule_update_ha_state self = self\<lparr>scheduled_updates := Suc (scheduled_updates self)\<rparr>"

definition turn_on :: "EnOceanSwitch \<Rightarrow> EnOceanSwitch" where
  "turn_on self =
     (let pkt = RadioPacket_create VLD 0x01 0x01 (sender_id self) (dev_id self) 1
                  [''DV'' \<mapsto> 0, ''IO'' \<mapsto> channel self, ''OV'' \<mapsto> 0x64];
          self = send_packet self pkt
      in self\<lparr>attr_is_on := True\<rparr>)"

definition turn_off :: "EnOceanSwitch \<Rightarrow> EnOceanSwitch" where
  "turn_off self =
     (let pkt = RadioPacket_create VLD 0x01 0x01 (sender_id self) (dev_id self) 1
                  [''DV'' \<mapsto> 0, ''IO'' \<mapsto> channel self, ''OV'' \<mapsto> 0x0];
          self = send_packet self pkt
      in self\<lparr>attr_is_on := False\<rparr>)"

text \<open>
  \<^verbatim>\<open>value_changed\<close>. The first parameter is the library's parser, the second
  the constant \<^verbatim>\<open>SWITCH_ALL_CHANNELS\<close> of const.py (not among the sources).
  \<^verbatim>\<open>packet.data[0]\<close> raises \<^verbatim>\<open>IndexError\<close> on an empty list.
  \<^verbatim>\<open>raw_val / (10**divisor)\<close> is Python's true division of two integers; the
  model takes the exact quotient, a rational. Python rounds the quotient to the nearest
  double, which compares with 1 as the exact quotient does as long as
  \<^verbatim>\<open>10**divisor\<close> is below \<open>2^53\<close> and the quotient is in the range of a
  double.
\<close>

definition value_changed ::
  "eep_parser \<Rightarrow> int \<Rightarrow> EnOceanSwitch \<Rightarrow> packet \<Rightarrow> error + EnOceanSwitch" where
  "value_changed parse_eep SWITCH_ALL_CHANNELS self pkt =
     (case data pkt of
        [] \<Rightarrow> Inl IndexError
      | d0 # _ \<Rightarrow>
          if d0 = 0xA5 then
            bind_result (parse_eep pkt 0x12 0x01) (\<lambda>pkt.
            bind_result (raw_value pkt ''DT'') (\<lambda>dt.
              if dt = 1 then
                bind_result (raw_value pkt ''MR'') (\<lambda>raw_val.
                bind_result (raw_value pkt ''DIV'') (\<lambda>divisor.
                  let watts = (of_nat raw_val :: rat) / (10 ^ divisor) in
                  if watts > 1
                  then Inr (schedule_update_ha_state (self\<lparr>attr_is_on := True\<rparr>))
                  else Inr self))
              else Inr self))
          else if d0 = 0xD2 then
            bind_result (parse_eep pkt 0x01 0x01) (\<lambda>pkt.
            bind_result (raw_value pkt ''CMD'') (\<lambda>cmd.
              if cmd = 4 then
                bind_result (raw_value pkt ''IO'') (\<lambda>chan.
                bind_result (raw_value pkt ''OV'') (\<lambda>output.
                  if int chan = channel self \<or> channel self = SWITCH_ALL_CHANNELS
                  then Inr (schedule_update_ha_state (self\<lparr>attr_is_on := (output > 0)\<rparr>))
                  else Inr self))
              else Inr self))
          else Inr self)"

subsection \<open>Migration of unique ids\<close>

text \<open>
  Modelled from the spec: the host's entity registry (not part of the repository),
  restricted to the entities of this platform and domain: a list of pairs of an
  entity id and its unique id. \<^verbatim>\<open>async_get_entity_id\<close> finds the entity
  registered under a unique id; \<^verbatim>\<open>async_update_entity\<close> gives an entity a
  new unique id and raises \<^verbatim>\<open>ValueError\<close> when another entity already has
  it (the specification's "new key already exists").
\<close>

type_synonym registry = "(string \<times> string) list"

definition async_get_entity_id :: "registry \<Rightarrow> string \<Rightarrow> string option" where
  "async_get_entity_id reg unique_id =
     map_option fst (find (\<lambda>entry. snd entry = unique_id) reg)"

definition with_unique_id :: "string \<Rightarrow> string \<Rightarrow> string \<times> string \<Rightarrow> string \<times> string" where
  "with_unique_id entity_id new_unique_id entry =
     (if fst entry = entity_id then (fst entry, new_unique_id) else entry)"

definition async_update_entity :: "registry \<Rightarrow> string \<Rightarrow> string \<Rightarrow> error + registry" where
  "async_update_entity reg entity_id new_unique_id =
     (case map_of reg entity_id of
        None \<Rightarrow> Inl (KeyError entity_id)
      | Some old \<Rightarrow>
          if new_unique_id \<noteq> old \<and> async_get_entity_id reg new_unique_id \<noteq> None
          then Inl ValueError
          else Inr (map (with_unique_id entity_id new_unique_id) reg))"

text \<open>
  The registry keeps entity ids distinct, and unique ids distinct within a platform
  and domain.
\<close>

definition registry_ok :: "registry \<Rightarrow> bool" where
  "registry_ok reg = (distinct (map fst reg) \<and> distinct (map snd reg))"

text \<open>The two messages of the migration, each with the old and the new unique id.\<close>

datatype log_record = Warning_skip string string | Debug_migrating string string

record hass =
  ent_reg :: registry
  logger :: "log_record list"

text \<open>
  \<^verbatim>\<open>_migrate_to_new_unique_id\<close>. Only \<^verbatim>\<open>ValueError\<close> is caught; any
  other exception of the registry leaves the function.
\<close>

definition migrate_to_new_unique_id :: "hass \<Rightarrow> int list \<Rightarrow> int \<Rightarrow> error + hass" where
  "migrate_to_new_unique_id h dev channel_no =
     (let old_unique_id = str_int (combine_hex dev) in
      case async_get_entity_id (ent_reg h) old_unique_id of
        None \<Rightarrow> Inr h
      | Some entity_id \<Rightarrow>
          let new_unique_id = generate_unique_id dev channel_no in
          (case async_update_entity (ent_reg h) entity_id new_unique_id of
             Inl ValueError \<Rightarrow>
               Inr (h\<lparr>logger := logger h @ [Warning_skip old_unique_id new_unique_id]\<rparr>)
           | Inl e \<Rightarrow> Inl e
           | Inr reg \<Rightarrow>
               Inr (h\<lparr>ent_reg := reg,
                      logger := logger h @ [Debug_migrating old_unique_id new_unique_id]\<rparr>)))"

subsection \<open>Helper facts\<close>

lemma enumerate_shift_sum:
  "sum_list (map (\<lambda>(i, v). push_bit (i * 8) (v::int)) (enumerate (Suc n) xs)) =
   256 * sum_list (map (\<lambda>(i, v). push_bit (i * 8) v) (enumerate n xs))"
  by (induction xs arbitrary: n) (simp_all add: push_bit_eq_mult power_add algebra_simps)

lemma combine_hex_snoc: "combine_hex (xs @ [b]) = 256 * combine_hex xs + b"
  by (simp add: combine_hex_def enumerate_shift_sum)

lemma combine_hex_Cons_zero: "combine_hex (0 # xs) = combine_hex xs"
proof (induction xs rule: rev_induct)
  case Nil
  show ?case by (simp add: combine_hex_def)
next
  case (snoc b xs)
  have "combine_hex (0 # xs @ [b]) = combine_hex ((0 # xs) @ [b])" by simp
  also have "\<dots> = 256 * combine_hex (0 # xs) + b" by (rule combine_hex_snoc)
  also have "\<dots> = 256 * combine_hex xs + b" by (simp add: snoc.IH)
  also have "\<dots> = combine_hex (xs @ [b])" by (simp add: combine_hex_snoc)
  finally show ?case .
qed

text \<open>The registry: lookups, and what \<^verbatim>\<open>async_update_entity\<close> does to them.\<close>

lemma fst_with_unique_id: "fst (with_unique_id e new p) = fst p"
  by (simp add: with_unique_id_def)

lemma get_entity_id_Some_mem:
  "async_get_entity_id reg u = Some e \<Longrightarrow> (e, u) \<in> set reg"
  by (induction reg) (auto simp: async_get_entity_id_def split: if_splits)

lemma get_entity_id_None_iff:
  "async_get_entity_id reg u = None \<longleftrightarrow> u \<notin> snd ` set reg"
  by (induction reg) (auto simp: async_get_entity_id_def)

lemma get_entity_id_distinct:
  "distinct (map snd reg) \<Longrightarrow> (e, u) \<in> set reg \<Longrightarrow> async_get_entity_id reg u = Some e"
  by (induction reg) (force simp: async_get_entity_id_def)+

lemma new_unique_id_differs: "generate_unique_id dev c \<noteq> str_int (combine_hex dev)"
  by (simp add: generate_unique_id_def)

lemma renamed_entry:
  assumes "q \<in> set (map (with_unique_id e new) reg)"
  shows "(fst q = e \<and> snd q = new) \<or> (fst q \<noteq> e \<and> q \<in> set reg)"
proof -
  from assms obtain p where "p \<in> set reg" and "q = with_unique_id e new p" by auto
  then show ?thesis by (cases "fst p = e") (simp_all add: with_unique_id_def)
qed

lemma renamed_no_old:
  assumes "distinct (map snd reg)" and "(e, old) \<in> set reg" and "new \<noteq> old"
  shows "async_get_entity_id (map (with_unique_id e new) reg) old = None"
proof (rule ccontr)
  assume "async_get_entity_id (map (with_unique_id e new) reg) old \<noteq> None"
  then obtain x where "async_get_entity_id (map (with_unique_id e new) reg) old = Some x"
    by auto
  then have "(x, old) \<in> set (map (with_unique_id e new) reg)"
    by (rule get_entity_id_Some_mem)
  from renamed_entry [OF this] assms(3) have "x \<noteq> e" and "(x, old) \<in> set reg" by auto
  with assms(1) have "async_get_entity_id reg old = Some x"
    by (intro get_entity_id_distinct)
  moreover from assms(1,2) have "async_get_entity_id reg old = Some e"
    by (rule get_entity_id_distinct)
  ultimately show False using \<open>x \<noteq> e\<close> by simp
qed

lemma renamed_has_new:
  assumes "(e, old) \<in> set reg" and "async_get_entity_id reg new = None"
  shows "async_get_entity_id (map (with_unique_id e new) reg) new = Some e"
proof -
  from assms(1) have "with_unique_id e new (e, old) \<in> set (map (with_unique_id e new) reg)"
    by (simp only: set_map) (rule imageI)
  moreover have "snd (with_unique_id e new (e, old)) = new"
    by (simp add: with_unique_id_def)
  ultimately have "new \<in> snd ` set (map (with_unique_id e new) reg)"
    by (metis imageI)
  then obtain x where x: "async_get_entity_id (map (with_unique_id e new) reg) new = Some x"
    using get_entity_id_None_iff [of "map (with_unique_id e new) reg" new] by auto
  then have "(x, new) \<in> set (map (with_unique_id e new) reg)"
    by (rule get_entity_id_Some_mem)
  from renamed_entry [OF this] have "x = e \<or> (x, new) \<in> set reg" by auto
  moreover from assms(2) have "(x, new) \<notin> set reg"
    by (force simp: get_entity_id_None_iff)
  ultimately show ?thesis using x by simp
qed

lemma renamed_absent:
  "e \<notin> fst ` set reg \<Longrightarrow> map (with_unique_id e new) reg = reg"
  by (induction reg) (auto simp: with_unique_id_def)

lemma renamed_distinct_snd:
  "distinct (map fst reg) \<Longrightarrow> distinct (map snd reg) \<Longrightarrow> new \<notin> snd ` set reg \<Longrightarrow>
     distinct (map snd (map (with_unique_id e new) reg))"
proof (induction reg)
  case Nil
  show ?case by simp
next
  case (Cons p reg)
  show ?case
  proof (cases "fst p = e")
    case True
    with Cons.prems have "e \<notin> fst ` set reg" by auto
    then have "map (with_unique_id e new) reg = reg" by (rule renamed_absent)
    with True have "map (with_unique_id e new) (p # reg) = (fst p, new) # reg"
      by (simp add: with_unique_id_def)
    moreover from Cons.prems have "distinct (map snd ((fst p, new) # reg))" by simp
    ultimately show ?thesis by (simp only:)
  next
    case False
    define reg' where "reg' = map (with_unique_id e new) reg"
    from Cons.prems have p: "snd p \<noteq> new" "snd p \<notin> snd ` set reg" by auto
    have "snd p \<notin> snd ` set reg'"
    proof
      assume "snd p \<in> snd ` set reg'"
      then obtain q where q: "q \<in> set (map (with_unique_id e new) reg)" and "snd q = snd p"
        unfolding reg'_def by (metis imageE)
      from renamed_entry [OF q] have "snd q = new \<or> q \<in> set reg" by blast
      with p \<open>snd q = snd p\<close> show False by (metis imageI)
    qed
    moreover from Cons.prems have "distinct (map snd reg')"
      unfolding reg'_def by (intro Cons.IH) auto
    ultimately have "distinct (map snd (p # reg'))" by simp
    moreover from False have "map (with_unique_id e new) (p # reg) = p # reg'"
      by (simp add: with_unique_id_def reg'_def)
    ultimately show ?thesis by (simp only:)
  qed
qed

lemma renamed_registry_ok:
  assumes "registry_ok reg" and "async_get_entity_id reg new = None"
  shows "registry_ok (map (with_unique_id e new) reg)"
proof -
  from assms(2) have "new \<notin> snd ` set reg" by (simp add: get_entity_id_None_iff)
  with assms(1) have "distinct (map snd (map (with_unique_id e new) reg))"
    by (intro renamed_distinct_snd) (simp_all add: registry_ok_def)
  moreover have "map fst (map (with_unique_id e new) reg) = map fst reg"
    by (induction reg) (simp_all add: fst_with_unique_id)
  moreover from assms(1) have "distinct (map fst reg)" by (simp add: registry_ok_def)
  ultimately show ?thesis unfolding registry_ok_def by (simp only: simp_thms)
qed

subsection \<open>The encoder: turn_on and turn_off\<close>

text \<open>
  C4. Whatever the device address, the sender address and the configured channel,
  turning the switch on or off hands exactly one telegram to the transport: a VLD
  telegram of profile func \<open>0x01\<close>, type \<open>0x01\<close>, from the sender address to the
  device address, with command 1 and exactly the fields \<open>DV = 0\<close>, \<open>IO = channel\<close>
  and \<open>OV = 0x64\<close> when turning on, \<open>OV = 0x00\<close> when turning off.
\<close>

theorem encoder_fields:
  "sent_packets (if desiredOn then turn_on self else turn_off self) =
     sent_packets self @
       [\<lparr>rorg = VLD, rorg_func = 0x01, rorg_type = 0x01,
         sender = sender_id self, destination = dev_id self, command = 1,
         kwargs = [''DV'' \<mapsto> 0, ''IO'' \<mapsto> channel self,
                   ''OV'' \<mapsto> (if desiredOn then 0x64 else 0x00)]\<rparr>]"
  by (simp add: turn_on_def turn_off_def send_packet_def RadioPacket_create_def)

text \<open>
  C8, as stated: turning the switch on changes no state of the component other than
  the dispatched telegram. This fails: a freshly initialised switch is off, and after
  \<open>turn_on\<close> it differs from the old state with the new list of sent telegrams,
  because \<open>_attr_is_on\<close> has become \<open>True\<close>.
\<close>

theorem turn_on_changes_state:
  "turn_on (init_switch [1, 2, 3, 4] ''s'' 0 [5, 6, 7, 8])
     \<noteq> (init_switch [1, 2, 3, 4] ''s'' 0 [5, 6, 7, 8])
          \<lparr>sent_packets := sent_packets (turn_on (init_switch [1, 2, 3, 4] ''s'' 0 [5, 6, 7, 8]))\<rparr>"
  by (simp add: turn_on_def send_packet_def init_switch_def)

text \<open>
  C8, amended. \<open>turn_on\<close> and \<open>turn_off\<close> change nothing but the list of
  dispatched telegrams, which grows by one at its end, and the cached flag
  \<open>_attr_is_on\<close>, which \<open>turn_on\<close> sets to \<open>True\<close> and \<open>turn_off\<close> to
  \<open>False\<close>. The addresses, the channel, the unique id, the name and the number of
  scheduled state refreshes stay as they were.
\<close>

theorem turn_on_off_frame:
  "turn_on self = self\<lparr>attr_is_on := True, sent_packets := sent_packets (turn_on self)\<rparr>
   \<and> turn_off self = self\<lparr>attr_is_on := False, sent_packets := sent_packets (turn_off self)\<rparr>
   \<and> butlast (sent_packets (turn_on self)) = sent_packets self
   \<and> butlast (sent_packets (turn_off self)) = sent_packets self
   \<and> length (sent_packets (turn_on self)) = Suc (length (sent_packets self))
   \<and> length (sent_packets (turn_off self)) = Suc (length (sent_packets self))"
  by (simp add: turn_on_def turn_off_def send_packet_def)

subsection \<open>The interpreter: value_changed\<close>

text \<open>
  C1. For a telegram whose first data byte is \<open>0xD2\<close>, that parses under profile
  \<open>(0x01, 0x01)\<close> and whose CMD field is 4: when the reported channel IO equals the
  configured channel, or the configured channel is \<open>SWITCH_ALL_CHANNELS\<close>, the
  switch state becomes \<open>OV > 0\<close> and one state refresh is scheduled; otherwise the
  switch is returned unchanged.
\<close>

theorem status_update:
  assumes "data pkt = 0xD2 # rest"
    and "parse_eep pkt 0x01 0x01 = Inr pkt'"
    and "parsed pkt' ''CMD'' = Some 4"
    and "parsed pkt' ''IO'' = Some io"
    and "parsed pkt' ''OV'' = Some ov"
  shows "value_changed parse_eep ALL_CHANNELS self pkt =
           Inr (if int io = channel self \<or> channel self = ALL_CHANNELS
                then self\<lparr>attr_is_on := (ov > 0),
                          scheduled_updates := Suc (scheduled_updates self)\<rparr>
                else self)"
  using assms
  by (simp add: value_changed_def bind_result_def raw_value_def schedule_update_ha_state_def)

text \<open>
  A status telegram with \<open>IO = 5\<close> and \<open>OV = 100\<close>: no update against the
  configured channel 7, an update to "on" against the configured channel
  \<open>SWITCH_ALL_CHANNELS = 32\<close>.
\<close>

theorem status_update_witness:
  "value_changed (\<lambda>p f t. Inr (p\<lparr>parsed := [''CMD'' \<mapsto> 4, ''IO'' \<mapsto> 5, ''OV'' \<mapsto> 100]\<rparr>)) 32
      (init_switch [1, 2, 3, 4] ''s'' 7 [5, 6, 7, 8])
      \<lparr>data = [0xD2, 0x04, 0x65, 0xE4], parsed = Map.empty\<rparr>
    = Inr (init_switch [1, 2, 3, 4] ''s'' 7 [5, 6, 7, 8])
   \<and> value_changed (\<lambda>p f t. Inr (p\<lparr>parsed := [''CMD'' \<mapsto> 4, ''IO'' \<mapsto> 5, ''OV'' \<mapsto> 100]\<rparr>)) 32
      (init_switch [1, 2, 3, 4] ''s'' 32 [5, 6, 7, 8])
      \<lparr>data = [0xD2, 0x04, 0x65, 0xE4], parsed = Map.empty\<rparr>
    = Inr ((init_switch [1, 2, 3, 4] ''s'' 32 [5, 6, 7, 8])
             \<lparr>attr_is_on := True, scheduled_updates := 1\<rparr>)"
  using
    status_update [of "\<lparr>data = [0xD2, 0x04, 0x65, 0xE4], parsed = Map.empty\<rparr>" "[0x04, 0x65, 0xE4]"
      "\<lambda>p f t. Inr (p\<lparr>parsed := [''CMD'' \<mapsto> 4, ''IO'' \<mapsto> 5, ''OV'' \<mapsto> 100]\<rparr>)"
      "\<lparr>data = [0xD2, 0x04, 0x65, 0xE4], parsed = [''CMD'' \<mapsto> 4, ''IO'' \<mapsto> 5, ''OV'' \<mapsto> 100]\<rparr>"
      5 100 32 "init_switch [1, 2, 3, 4] ''s'' 7 [5, 6, 7, 8]"]
    status_update [of "\<lparr>data = [0xD2, 0x04, 0x65, 0xE4], parsed = Map.empty\<rparr>" "[0x04, 0x65, 0xE4]"
      "\<lambda>p f t. Inr (p\<lparr>parsed := [''CMD'' \<mapsto> 4, ''IO'' \<mapsto> 5, ''OV'' \<mapsto> 100]\<rparr>)"
      "\<lparr>data = [0xD2, 0x04, 0x65, 0xE4], parsed = [''CMD'' \<mapsto> 4, ''IO'' \<mapsto> 5, ''OV'' \<mapsto> 100]\<rparr>"
      5 100 32 "init_switch [1, 2, 3, 4] ''s'' 32 [5, 6, 7, 8]"]
  by (simp add: init_switch_def)

text \<open>
  C2. For a telegram whose first data byte is \<open>0xA5\<close> and that parses under profile
  \<open>(0x12, 0x01)\<close> with fields DT, MR and DIV: the switch state becomes "on", with one
  state refresh scheduled, exactly when \<open>DT = 1\<close> and \<open>MR / 10^DIV > 1\<close>; otherwise
  the switch is returned unchanged.
\<close>

theorem power_update:
  assumes "data pkt = 0xA5 # rest"
    and "parse_eep pkt 0x12 0x01 = Inr pkt'"
    and "parsed pkt' ''DT'' = Some dt"
    and "parsed pkt' ''MR'' = Some mr"
    and "parsed pkt' ''DIV'' = Some dv"
  shows "value_changed parse_eep ALL_CHANNELS self pkt =
           Inr (if dt = 1 \<and> (of_nat mr :: rat) / 10 ^ dv > 1
                then self\<lparr>attr_is_on := True,
                          scheduled_updates := Suc (scheduled_updates self)\<rparr>
                else self)"
  using assms
  by (simp add: value_changed_def bind_result_def raw_value_def schedule_update_ha_state_def)

text \<open>
  \<open>DT = 1, MR = 150, DIV = 1\<close> (15 W) turns the switch on; \<open>DT = 1, MR = 5, DIV = 1\<close>
  (0.5 W) and \<open>DT = 0, MR = 150, DIV = 1\<close> give no update.
\<close>

theorem power_update_witness:
  "value_changed (\<lambda>p f t. Inr (p\<lparr>parsed := [''DT'' \<mapsto> 1, ''MR'' \<mapsto> 150, ''DIV'' \<mapsto> 1]\<rparr>)) 32
      (init_switch [1, 2, 3, 4] ''s'' 7 [5, 6, 7, 8])
      \<lparr>data = [0xA5, 0, 0, 150, 13], parsed = Map.empty\<rparr>
    = Inr ((init_switch [1, 2, 3, 4] ''s'' 7 [5, 6, 7, 8])
             \<lparr>attr_is_on := True, scheduled_updates := 1\<rparr>)
   \<and> value_changed (\<lambda>p f t. Inr (p\<lparr>parsed := [''DT'' \<mapsto> 1, ''MR'' \<mapsto> 5, ''DIV'' \<mapsto> 1]\<rparr>)) 32
      (init_switch [1, 2, 3, 4] ''s'' 7 [5, 6, 7, 8])
      \<lparr>data = [0xA5, 0, 0, 5, 13], parsed = Map.empty\<rparr>
    = Inr (init_switch [1, 2, 3, 4] ''s'' 7 [5, 6, 7, 8])
   \<and> value_changed (\<lambda>p f t. Inr (p\<lparr>parsed := [''DT'' \<mapsto> 0, ''MR'' \<mapsto> 150, ''DIV'' \<mapsto> 1]\<rparr>)) 32
      (init_switch [1, 2, 3, 4] ''s'' 7 [5, 6, 7, 8])
      \<lparr>data = [0xA5, 0, 0, 150, 9], parsed = Map.empty\<rparr>
    = Inr (init_switch [1, 2, 3, 4] ''s'' 7 [5, 6, 7, 8])"
  using
    power_update [of "\<lparr>data = [0xA5, 0, 0, 150, 13], parsed = Map.empty\<rparr>" "[0, 0, 150, 13]"
      "\<lambda>p f t. Inr (p\<lparr>parsed := [''DT'' \<mapsto> 1, ''MR'' \<mapsto> 150, ''DIV'' \<mapsto> 1]\<rparr>)"
      "\<lparr>data = [0xA5, 0, 0, 150, 13], parsed = [''DT'' \<mapsto> 1, ''MR'' \<mapsto> 150, ''DIV'' \<mapsto> 1]\<rparr>"
      1 150 1 32 "init_switch [1, 2, 3, 4] ''s'' 7 [5, 6, 7, 8]"]
    power_update [of "\<lparr>data = [0xA5, 0, 0, 5, 13], parsed = Map.empty\<rparr>" "[0, 0, 5, 13]"
      "\<lambda>p f t. Inr (p\<lparr>parsed := [''DT'' \<mapsto> 1, ''MR'' \<mapsto> 5, ''DIV'' \<mapsto> 1]\<rparr>)"
      "\<lparr>data = [0xA5, 0, 0, 5, 13], parsed = [''DT'' \<mapsto> 1, ''MR'' \<mapsto> 5, ''DIV'' \<mapsto> 1]\<rparr>"
      1 5 1 32 "init_switch [1, 2, 3, 4] ''s'' 7 [5, 6, 7, 8]"]
    power_update [of "\<lparr>data = [0xA5, 0, 0, 150, 9], parsed = Map.empty\<rparr>" "[0, 0, 150, 9]"
      "\<lambda>p f t. Inr (p\<lparr>parsed := [''DT'' \<mapsto> 0, ''MR'' \<mapsto> 150, ''DIV'' \<mapsto> 1]\<rparr>)"
      "\<lparr>data = [0xA5, 0, 0, 150, 9], parsed = [''DT'' \<mapsto> 0, ''MR'' \<mapsto> 150, ''DIV'' \<mapsto> 1]\<rparr>"
      0 150 1 32 "init_switch [1, 2, 3, 4] ''s'' 7 [5, 6, 7, 8]"]
  by (simp add: init_switch_def)

text \<open>
  C3. Round trip. Let \<open>t\<close> be the telegram that \<open>turn_on\<close> (for \<open>desiredOn\<close>) or
  \<open>turn_off\<close> hands to the transport. Any status telegram with first data byte
  \<open>0xD2\<close>, \<open>CMD = 4\<close> and the IO and OV values of \<open>t\<close>, decoded by a switch
  configured with the same channel, sets the switch state to \<open>desiredOn\<close> and
  schedules one state refresh, whatever the state was before.
\<close>

theorem encode_decode_roundtrip:
  assumes "t = last (sent_packets (if desiredOn then turn_on self else turn_off self))"
    and "channel receiver = channel self"
    and "data pkt = 0xD2 # rest"
    and "parse_eep pkt 0x01 0x01 = Inr pkt'"
    and "parsed pkt' ''CMD'' = Some 4"
    and "map_option int (parsed pkt' ''IO'') = kwargs t ''IO''"
    and "map_option int (parsed pkt' ''OV'') = kwargs t ''OV''"
  shows "value_changed parse_eep ALL_CHANNELS receiver pkt =
           Inr (receiver\<lparr>attr_is_on := desiredOn,
                         scheduled_updates := Suc (scheduled_updates receiver)\<rparr>)"
  using assms
  by (cases desiredOn)
     (auto simp: value_changed_def bind_result_def raw_value_def schedule_update_ha_state_def
        turn_on_def turn_off_def send_packet_def RadioPacket_create_def)

text \<open>
  Channel 7: the reply to \<open>turn_on\<close> (\<open>OV = 0x64\<close>) switches a switch that is off
  to on, the reply to \<open>turn_off\<close> (\<open>OV = 0\<close>) switches a switch that is on to off.
\<close>

theorem encode_decode_roundtrip_witness:
  "value_changed (\<lambda>p f t. Inr (p\<lparr>parsed := [''CMD'' \<mapsto> 4, ''IO'' \<mapsto> 7, ''OV'' \<mapsto> 0x64]\<rparr>)) 32
      (init_switch [1, 2, 3, 4] ''s'' 7 [5, 6, 7, 8])
      \<lparr>data = [0xD2, 0x04, 0x67, 0xE4], parsed = Map.empty\<rparr>
    = Inr ((init_switch [1, 2, 3, 4] ''s'' 7 [5, 6, 7, 8])
             \<lparr>attr_is_on := True, scheduled_updates := 1\<rparr>)
   \<and> value_changed (\<lambda>p f t. Inr (p\<lparr>parsed := [''CMD'' \<mapsto> 4, ''IO'' \<mapsto> 7, ''OV'' \<mapsto> 0]\<rparr>)) 32
      ((init_switch [1, 2, 3, 4] ''s'' 7 [5, 6, 7, 8])\<lparr>attr_is_on := True\<rparr>)
      \<lparr>data = [0xD2, 0x04, 0x67, 0x80], parsed = Map.empty\<rparr>
    = Inr ((init_switch [1, 2, 3, 4] ''s'' 7 [5, 6, 7, 8])
             \<lparr>attr_is_on := False, scheduled_updates := 1\<rparr>)"
  using
    encode_decode_roundtrip [where desiredOn = True
      and self = "init_switch [1, 2, 3, 4] ''s'' 7 [5, 6, 7, 8]"
      and t = "last (sent_packets (turn_on (init_switch [1, 2, 3, 4] ''s'' 7 [5, 6, 7, 8])))"
      and receiver = "init_switch [1, 2, 3, 4] ''s'' 7 [5, 6, 7, 8]"
      and pkt = "\<lparr>data = [0xD2, 0x04, 0x67, 0xE4], parsed = Map.empty\<rparr>"
      and rest = "[0x04, 0x67, 0xE4]"
      and parse_eep = "\<lambda>p f t. Inr (p\<lparr>parsed := [''CMD'' \<mapsto> 4, ''IO'' \<mapsto> 7, ''OV'' \<mapsto> 0x64]\<rparr>)"
      and pkt' = "\<lparr>data = [0xD2, 0x04, 0x67, 0xE4],
                   parsed = [''CMD'' \<mapsto> 4, ''IO'' \<mapsto> 7, ''OV'' \<mapsto> 0x64]\<rparr>"
      and ALL_CHANNELS = 32]
    encode_decode_roundtrip [where desiredOn = False
      and self = "init_switch [1, 2, 3, 4] ''s'' 7 [5, 6, 7, 8]"
      and t = "last (sent_packets (turn_off (init_switch [1, 2, 3, 4] ''s'' 7 [5, 6, 7, 8])))"
      and receiver = "(init_switch [1, 2, 3, 4] ''s'' 7 [5, 6, 7, 8])\<lparr>attr_is_on := True\<rparr>"
      and pkt = "\<lparr>data = [0xD2, 0x04, 0x67, 0x80], parsed = Map.empty\<rparr>"
      and rest = "[0x04, 0x67, 0x80]"
      and parse_eep = "\<lambda>p f t. Inr (p\<lparr>parsed := [''CMD'' \<mapsto> 4, ''IO'' \<mapsto> 7, ''OV'' \<mapsto> 0]\<rparr>)"
      and pkt' = "\<lparr>data = [0xD2, 0x04, 0x67, 0x80],
                   parsed = [''CMD'' \<mapsto> 4, ''IO'' \<mapsto> 7, ''OV'' \<mapsto> 0]\<rparr>"
      and ALL_CHANNELS = 32]
  by (simp add: init_switch_def turn_on_def turn_off_def send_packet_def RadioPacket_create_def)

text \<open>
  C5. A telegram whose first data byte is \<open>0xA5\<close> never switches the switch off:
  whenever \<open>value_changed\<close> returns, the switch is either unchanged or has been set
  to "on" with one state refresh scheduled; a switch that was on is still on.
\<close>

theorem power_never_off:
  assumes "data pkt = 0xA5 # rest"
    and "value_changed parse_eep ALL_CHANNELS self pkt = Inr self'"
  shows "(self' = self
          \<or> self' = self\<lparr>attr_is_on := True, scheduled_updates := Suc (scheduled_updates self)\<rparr>)
         \<and> (attr_is_on self \<longrightarrow> attr_is_on self')"
  using assms
  by (auto simp: value_changed_def bind_result_def raw_value_def schedule_update_ha_state_def
      split: sum.splits option.splits if_splits)

text \<open>A reading of 0 W leaves a switch that is on as it is.\<close>

theorem power_never_off_witness:
  "value_changed (\<lambda>p f t. Inr (p\<lparr>parsed := [''DT'' \<mapsto> 1, ''MR'' \<mapsto> 0, ''DIV'' \<mapsto> 0]\<rparr>)) 32
      ((init_switch [1, 2, 3, 4] ''s'' 7 [5, 6, 7, 8])\<lparr>attr_is_on := True\<rparr>)
      \<lparr>data = [0xA5, 0, 0, 0, 12], parsed = Map.empty\<rparr>
    = Inr ((init_switch [1, 2, 3, 4] ''s'' 7 [5, 6, 7, 8])\<lparr>attr_is_on := True\<rparr>)
   \<and> attr_is_on ((init_switch [1, 2, 3, 4] ''s'' 7 [5, 6, 7, 8])\<lparr>attr_is_on := True\<rparr>)"
  using power_never_off [of "\<lparr>data = [0xA5, 0, 0, 0, 12], parsed = Map.empty\<rparr>" "[0, 0, 0, 12]"
      "\<lambda>p f t. Inr (p\<lparr>parsed := [''DT'' \<mapsto> 1, ''MR'' \<mapsto> 0, ''DIV'' \<mapsto> 0]\<rparr>)" 32
      "(init_switch [1, 2, 3, 4] ''s'' 7 [5, 6, 7, 8])\<lparr>attr_is_on := True\<rparr>"
      "(init_switch [1, 2, 3, 4] ''s'' 7 [5, 6, 7, 8])\<lparr>attr_is_on := True\<rparr>"]
  by (simp add: init_switch_def value_changed_def bind_result_def raw_value_def)

text \<open>
  C6. A telegram is ignored, the switch returned unchanged and no exception raised, in
  each of these cases: the first data byte is neither \<open>0xA5\<close> nor \<open>0xD2\<close>; the
  first byte is \<open>0xA5\<close>, the telegram parses, and DT is not 1, or DT is 1 and
  \<open>MR / 10^DIV\<close> is at most 1; the first byte is \<open>0xD2\<close>, the telegram parses, and
  CMD is not 4, or CMD is 4 and IO is neither the configured channel nor is the
  configured channel \<open>SWITCH_ALL_CHANNELS\<close>.
\<close>

theorem ignored_telegrams:
  "(data pkt = d0 # rest \<longrightarrow> d0 \<noteq> 0xA5 \<longrightarrow> d0 \<noteq> 0xD2 \<longrightarrow>
      value_changed parse_eep ALL_CHANNELS self pkt = Inr self)
   \<and> (data pkt = 0xA5 # rest \<longrightarrow> parse_eep pkt 0x12 0x01 = Inr pkt' \<longrightarrow>
        parsed pkt' ''DT'' = Some dt \<longrightarrow> dt \<noteq> 1 \<longrightarrow>
      value_changed parse_eep ALL_CHANNELS self pkt = Inr self)
   \<and> (data pkt = 0xA5 # rest \<longrightarrow> parse_eep pkt 0x12 0x01 = Inr pkt' \<longrightarrow>
        parsed pkt' ''DT'' = Some 1 \<longrightarrow> parsed pkt' ''MR'' = Some mr \<longrightarrow>
        parsed pkt' ''DIV'' = Some dv \<longrightarrow> \<not> (of_nat mr :: rat) / 10 ^ dv > 1 \<longrightarrow>
      value_changed parse_eep ALL_CHANNELS self pkt = Inr self)
   \<and> (data pkt = 0xD2 # rest \<longrightarrow> parse_eep pkt 0x01 0x01 = Inr pkt' \<longrightarrow>
        parsed pkt' ''CMD'' = Some cmd \<longrightarrow> cmd \<noteq> 4 \<longrightarrow>
      value_changed parse_eep ALL_CHANNELS self pkt = Inr self)
   \<and> (data pkt = 0xD2 # rest \<longrightarrow> parse_eep pkt 0x01 0x01 = Inr pkt' \<longrightarrow>
        parsed pkt' ''CMD'' = Some 4 \<longrightarrow> parsed pkt' ''IO'' = Some io \<longrightarrow>
        parsed pkt' ''OV'' = Some ov \<longrightarrow> int io \<noteq> channel self \<longrightarrow>
        channel self \<noteq> ALL_CHANNELS \<longrightarrow>
      value_changed parse_eep ALL_CHANNELS self pkt = Inr self)"
  by (simp add: value_changed_def bind_result_def raw_value_def)

text \<open>
  One telegram for each case: a telegram of class \<open>0xF6\<close> (with a parser that would
  fail), a cumulative energy reading (\<open>DT = 0\<close>), a reading of exactly 1 W, a telegram
  with \<open>CMD = 1\<close>, and a status telegram for channel 5 at a switch of channel 7.
\<close>

theorem ignored_telegrams_witness:
  "value_changed (\<lambda>p f t. Inl ParseError) 32 (init_switch [1, 2, 3, 4] ''s'' 7 [5, 6, 7, 8])
      \<lparr>data = [0xF6, 0x30], parsed = Map.empty\<rparr>
    = Inr (init_switch [1, 2, 3, 4] ''s'' 7 [5, 6, 7, 8])
   \<and> value_changed (\<lambda>p f t. Inr (p\<lparr>parsed := [''DT'' \<mapsto> 0]\<rparr>)) 32
      (init_switch [1, 2, 3, 4] ''s'' 7 [5, 6, 7, 8])
      \<lparr>data = [0xA5, 0, 0, 150, 9], parsed = Map.empty\<rparr>
    = Inr (init_switch [1, 2, 3, 4] ''s'' 7 [5, 6, 7, 8])
   \<and> value_changed (\<lambda>p f t. Inr (p\<lparr>parsed := [''DT'' \<mapsto> 1, ''MR'' \<mapsto> 10, ''DIV'' \<mapsto> 1]\<rparr>)) 32
      (init_switch [1, 2, 3, 4] ''s'' 7 [5, 6, 7, 8])
      \<lparr>data = [0xA5, 0, 0, 10, 13], parsed = Map.empty\<rparr>
    = Inr (init_switch [1, 2, 3, 4] ''s'' 7 [5, 6, 7, 8])
   \<and> value_changed (\<lambda>p f t. Inr (p\<lparr>parsed := [''CMD'' \<mapsto> 1]\<rparr>)) 32
      (init_switch [1, 2, 3, 4] ''s'' 7 [5, 6, 7, 8])
      \<lparr>data = [0xD2, 0x01, 0x07, 0x64], parsed = Map.empty\<rparr>
    = Inr (init_switch [1, 2, 3, 4] ''s'' 7 [5, 6, 7, 8])
   \<and> value_changed (\<lambda>p f t. Inr (p\<lparr>parsed := [''CMD'' \<mapsto> 4, ''IO'' \<mapsto> 5, ''OV'' \<mapsto> 100]\<rparr>)) 32
      (init_switch [1, 2, 3, 4] ''s'' 7 [5, 6, 7, 8])
      \<lparr>data = [0xD2, 0x04, 0x65, 0xE4], parsed = Map.empty\<rparr>
    = Inr (init_switch [1, 2, 3, 4] ''s'' 7 [5, 6, 7, 8])"
  using
    ignored_telegrams [where pkt = "\<lparr>data = [0xF6, 0x30], parsed = Map.empty\<rparr>"
      and ?d0.0 = "0xF6" and rest = "[0x30]" and parse_eep = "\<lambda>p f t. Inl ParseError"
      and ALL_CHANNELS = 32 and self = "init_switch [1, 2, 3, 4] ''s'' 7 [5, 6, 7, 8]"]
    ignored_telegrams [where pkt = "\<lparr>data = [0xA5, 0, 0, 150, 9], parsed = Map.empty\<rparr>"
      and rest = "[0, 0, 150, 9]"
      and parse_eep = "\<lambda>p f t. Inr (p\<lparr>parsed := [''DT'' \<mapsto> 0]\<rparr>)"
      and pkt' = "\<lparr>data = [0xA5, 0, 0, 150, 9], parsed = [''DT'' \<mapsto> 0]\<rparr>" and dt = 0
      and ALL_CHANNELS = 32 and self = "init_switch [1, 2, 3, 4] ''s'' 7 [5, 6, 7, 8]"]
    ignored_telegrams [where pkt = "\<lparr>data = [0xA5, 0, 0, 10, 13], parsed = Map.empty\<rparr>"
      and rest = "[0, 0, 10, 13]"
      and parse_eep = "\<lambda>p f t. Inr (p\<lparr>parsed := [''DT'' \<mapsto> 1, ''MR'' \<mapsto> 10, ''DIV'' \<mapsto> 1]\<rparr>)"
      and pkt' = "\<lparr>data = [0xA5, 0, 0, 10, 13],
                   parsed = [''DT'' \<mapsto> 1, ''MR'' \<mapsto> 10, ''DIV'' \<mapsto> 1]\<rparr>"
      and mr = 10 and dv = 1
      and ALL_CHANNELS = 32 and self = "init_switch [1, 2, 3, 4] ''s'' 7 [5, 6, 7, 8]"]
    ignored_telegrams [where pkt = "\<lparr>data = [0xD2, 0x01, 0x07, 0x64], parsed = Map.empty\<rparr>"
      and rest = "[0x01, 0x07, 0x64]"
      and parse_eep = "\<lambda>p f t. Inr (p\<lparr>parsed := [''CMD'' \<mapsto> 1]\<rparr>)"
      and pkt' = "\<lparr>data = [0xD2, 0x01, 0x07, 0x64], parsed = [''CMD'' \<mapsto> 1]\<rparr>" and cmd = 1
      and ALL_CHANNELS = 32 and self = "init_switch [1, 2, 3, 4] ''s'' 7 [5, 6, 7, 8]"]
    ignored_telegrams [where pkt = "\<lparr>data = [0xD2, 0x04, 0x65, 0xE4], parsed = Map.empty\<rparr>"
      and rest = "[0x04, 0x65, 0xE4]"
      and parse_eep = "\<lambda>p f t. Inr (p\<lparr>parsed := [''CMD'' \<mapsto> 4, ''IO'' \<mapsto> 5, ''OV'' \<mapsto> 100]\<rparr>)"
      and pkt' = "\<lparr>data = [0xD2, 0x04, 0x65, 0xE4],
                   parsed = [''CMD'' \<mapsto> 4, ''IO'' \<mapsto> 5, ''OV'' \<mapsto> 100]\<rparr>"
      and io = 5 and ov = 100
      and ALL_CHANNELS = 32 and self = "init_switch [1, 2, 3, 4] ''s'' 7 [5, 6, 7, 8]"]
  by (simp add: init_switch_def)

subsection \<open>The migration of unique ids\<close>

text \<open>
  C7. Let \<open>old\<close> be the old key, the combined device address, and \<open>new\<close> the new
  key, made of the combined address and the channel. If no entity is registered under
  \<open>old\<close>, the migration does nothing. If an entity is registered under \<open>old\<close> and
  none under \<open>new\<close>, one call registers it under \<open>new\<close>, leaves \<open>old\<close> absent
  and logs a debug message; a second call with the same arguments then changes
  nothing. If an entity is already registered under \<open>new\<close>, the call returns
  normally, the registry is unchanged and a warning is logged.
\<close>

theorem migration_once:
  assumes "old = str_int (combine_hex dev)" and "new = generate_unique_id dev c"
  shows "(async_get_entity_id (ent_reg h) old = None \<longrightarrow>
            migrate_to_new_unique_id h dev c = Inr h)
       \<and> (registry_ok (ent_reg h) \<and> async_get_entity_id (ent_reg h) old = Some e
            \<and> async_get_entity_id (ent_reg h) new = None \<longrightarrow>
            (\<exists>h'. migrate_to_new_unique_id h dev c = Inr h'
                  \<and> async_get_entity_id (ent_reg h') new = Some e
                  \<and> async_get_entity_id (ent_reg h') old = None
                  \<and> logger h' = logger h @ [Debug_migrating old new]
                  \<and> registry_ok (ent_reg h')
                  \<and> migrate_to_new_unique_id h' dev c = Inr h'))
       \<and> (registry_ok (ent_reg h) \<and> async_get_entity_id (ent_reg h) old = Some e
            \<and> async_get_entity_id (ent_reg h) new \<noteq> None \<longrightarrow>
            migrate_to_new_unique_id h dev c =
              Inr (h\<lparr>logger := logger h @ [Warning_skip old new]\<rparr>))"
proof (intro conjI impI)
  assume "async_get_entity_id (ent_reg h) old = None"
  with assms show "migrate_to_new_unique_id h dev c = Inr h"
    by (simp add: migrate_to_new_unique_id_def)
next
  assume a: "registry_ok (ent_reg h) \<and> async_get_entity_id (ent_reg h) old = Some e
             \<and> async_get_entity_id (ent_reg h) new = None"
  define reg' where "reg' = map (with_unique_id e new) (ent_reg h)"
  define h' where "h' = h\<lparr>ent_reg := reg', logger := logger h @ [Debug_migrating old new]\<rparr>"
  from a have mem: "(e, old) \<in> set (ent_reg h)" by (simp add: get_entity_id_Some_mem)
  with a have lookup: "map_of (ent_reg h) e = Some old" by (simp add: registry_ok_def)
  from assms have neq: "new \<noteq> old" by (simp add: new_unique_id_differs)
  from a lookup have upd: "async_update_entity (ent_reg h) e new = Inr reg'"
    by (simp add: async_update_entity_def reg'_def)
  from a upd assms have 1: "migrate_to_new_unique_id h dev c = Inr h'"
    by (simp add: migrate_to_new_unique_id_def h'_def)
  from mem a have 2: "async_get_entity_id reg' new = Some e"
    unfolding reg'_def by (intro renamed_has_new) simp_all
  from a mem neq have 3: "async_get_entity_id reg' old = None"
    unfolding reg'_def by (intro renamed_no_old) (simp_all add: registry_ok_def)
  from a have 4: "registry_ok reg'"
    unfolding reg'_def by (intro renamed_registry_ok) simp_all
  have reg: "ent_reg h' = reg'" by (simp add: h'_def)
  from 3 assms have 5: "migrate_to_new_unique_id h' dev c = Inr h'"
    by (simp add: migrate_to_new_unique_id_def reg)
  have "logger h' = logger h @ [Debug_migrating old new]" by (simp add: h'_def)
  with 1 2 3 4 5 reg
  show "\<exists>h'. migrate_to_new_unique_id h dev c = Inr h'
          \<and> async_get_entity_id (ent_reg h') new = Some e
          \<and> async_get_entity_id (ent_reg h') old = None
          \<and> logger h' = logger h @ [Debug_migrating old new]
          \<and> registry_ok (ent_reg h')
          \<and> migrate_to_new_unique_id h' dev c = Inr h'"
    by (intro exI [of _ h']) (simp only: simp_thms)
next
  assume a: "registry_ok (ent_reg h) \<and> async_get_entity_id (ent_reg h) old = Some e
             \<and> async_get_entity_id (ent_reg h) new \<noteq> None"
  then have "(e, old) \<in> set (ent_reg h)" by (simp add: get_entity_id_Some_mem)
  with a have lookup: "map_of (ent_reg h) e = Some old" by (simp add: registry_ok_def)
  from assms have neq: "new \<noteq> old" by (simp add: new_unique_id_differs)
  from a lookup neq have "async_update_entity (ent_reg h) e new = Inl ValueError"
    by (simp add: async_update_entity_def)
  with a assms show "migrate_to_new_unique_id h dev c =
      Inr (h\<lparr>logger := logger h @ [Warning_skip old new]\<rparr>)"
    by (simp add: migrate_to_new_unique_id_def)
qed

text \<open>
  Device address \<open>[0x01, 0x02]\<close>, channel 7: the old key is \<open>258\<close>, the new key
  \<open>258-7\<close>. An empty registry, a registry with the entity under the old key, and
  a registry in which another entity already has the new key.
\<close>

theorem migration_once_witness:
  "migrate_to_new_unique_id \<lparr>ent_reg = [], logger = []\<rparr> [0x01, 0x02] 7 =
     Inr \<lparr>ent_reg = [], logger = []\<rparr>
   \<and> (\<exists>h'. migrate_to_new_unique_id
              \<lparr>ent_reg = [(''switch.lamp'', ''258'')], logger = []\<rparr> [0x01, 0x02] 7 = Inr h'
          \<and> async_get_entity_id (ent_reg h') ''258-7'' = Some ''switch.lamp''
          \<and> async_get_entity_id (ent_reg h') ''258'' = None
          \<and> logger h' = [] @ [Debug_migrating ''258'' ''258-7'']
          \<and> registry_ok (ent_reg h')
          \<and> migrate_to_new_unique_id h' [0x01, 0x02] 7 = Inr h')
   \<and> migrate_to_new_unique_id
         \<lparr>ent_reg = [(''switch.lamp'', ''258''), (''switch.other'', ''258-7'')], logger = []\<rparr>
         [0x01, 0x02] 7 =
       Inr \<lparr>ent_reg = [(''switch.lamp'', ''258''), (''switch.other'', ''258-7'')],
            logger = [Warning_skip ''258'' ''258-7'']\<rparr>"
proof -
  have old: "''258'' = str_int (combine_hex [0x01, 0x02])"
    by (simp add: combine_hex_def str_int_def str_nat.simps digit_char_def)
  have new: "''258-7'' = generate_unique_id [0x01, 0x02] 7"
    by (simp add: generate_unique_id_def combine_hex_def str_int_def str_nat.simps digit_char_def)
  have ok1: "registry_ok [(''switch.lamp'', ''258'')]"
    by (simp add: registry_ok_def)
  have ok2: "registry_ok [(''switch.lamp'', ''258''), (''switch.other'', ''258-7'')]"
    by (simp add: registry_ok_def)
  from migration_once [OF old new, of "\<lparr>ent_reg = [], logger = []\<rparr>" "''switch.lamp''"]
  have "migrate_to_new_unique_id \<lparr>ent_reg = [], logger = []\<rparr> [0x01, 0x02] 7 =
     Inr \<lparr>ent_reg = [], logger = []\<rparr>"
    by (simp add: async_get_entity_id_def)
  moreover
  from migration_once [OF old new,
      of "\<lparr>ent_reg = [(''switch.lamp'', ''258'')], logger = []\<rparr>" "''switch.lamp''"] ok1
  have "\<exists>h'. migrate_to_new_unique_id
              \<lparr>ent_reg = [(''switch.lamp'', ''258'')], logger = []\<rparr> [0x01, 0x02] 7 = Inr h'
          \<and> async_get_entity_id (ent_reg h') ''258-7'' = Some ''switch.lamp''
          \<and> async_get_entity_id (ent_reg h') ''258'' = None
          \<and> logger h' = [] @ [Debug_migrating ''258'' ''258-7'']
          \<and> registry_ok (ent_reg h')
          \<and> migrate_to_new_unique_id h' [0x01, 0x02] 7 = Inr h'"
    by (simp add: async_get_entity_id_def)
  moreover
  from migration_once [OF old new,
      of "\<lparr>ent_reg = [(''switch.lamp'', ''258''), (''switch.other'', ''258-7'')], logger = []\<rparr>"
        "''switch.lamp''"] ok2
  have "migrate_to_new_unique_id
         \<lparr>ent_reg = [(''switch.lamp'', ''258''), (''switch.other'', ''258-7'')], logger = []\<rparr>
         [0x01, 0x02] 7 =
       Inr \<lparr>ent_reg = [(''switch.lamp'', ''258''), (''switch.other'', ''258-7'')],
            logger = [Warning_skip ''258'' ''258-7'']\<rparr>"
    by (simp add: async_get_entity_id_def)
  ultimately show ?thesis by (simp only: simp_thms)
qed

subsection \<open>The unique id\<close>

text \<open>
  C9. The address combination is a function of the byte sequence alone and is the
  big-endian fold: appending a byte multiplies the value so far by 256 and adds the
  byte. It is order-sensitive: \<open>combine_hex [0x01, 0x02] = 258\<close> and
  \<open>combine_hex [0x02, 0x01] = 513\<close>, so the two differ.
\<close>

theorem combine_hex_big_endian_order_sensitive:
  "(\<forall>xs b. combine_hex (xs @ [b]) = 256 * combine_hex xs + b)
   \<and> combine_hex [] = 0
   \<and> combine_hex [0x01, 0x02] = 258
   \<and> combine_hex [0x02, 0x01] = 513
   \<and> combine_hex [0x01, 0x02] \<noteq> combine_hex [0x02, 0x01]"
  by (simp add: combine_hex_snoc) (simp add: combine_hex_def)

text \<open>
  C10. The unique id is not injective in the device address: a leading zero byte does
  not change it, so the distinct addresses \<open>[0x01, 0x02]\<close> and
  \<open>[0x00, 0x01, 0x02]\<close> give the same unique id for every channel.
\<close>

theorem generate_unique_id_not_injective:
  "(\<forall>xs c. generate_unique_id (0 # xs) c = generate_unique_id xs c)
   \<and> [0x01, 0x02] \<noteq> [0x00, 0x01, (0x02::int)]
   \<and> (\<forall>c. generate_unique_id [0x01, 0x02] c = generate_unique_id [0x00, 0x01, 0x02] c)"
  by (simp add: generate_unique_id_def combine_hex_Cons_zero)

end
